theory Spec2Isabelle
  imports Main
begin

section \<open>Data model\<close>

text \<open>
  The adapter (\<^verbatim>\<open>src/index.js\<close>, \<^verbatim>\<open>src/utils.js\<close>) pins a file, looks up its size, builds a
  \<^verbatim>\<open>market.placeStorageOrder\<close> transaction and hands it to \<^verbatim>\<open>sendTx\<close>, which signs and
  submits it and settles a JavaScript promise from the status notifications of the node.

  JavaScript values thrown or passed to \<^verbatim>\<open>reject\<close> are modelled by their message:
  \<^verbatim>\<open>new Error('Invalid transaction')\<close> is \<open>Error ''Invalid transaction''\<close>.
\<close>

datatype js_error = Error string

text \<open>
  The status of a notification is the \<^verbatim>\<open>ExtrinsicStatus\<close> enum of the chain API. The source
  reads it through \<^verbatim>\<open>status.isInvalid\<close>, \<^verbatim>\<open>status.isDropped\<close>, \<^verbatim>\<open>status.isUsurped\<close>,
  \<^verbatim>\<open>status.isRetracted\<close>, \<^verbatim>\<open>status.isInBlock\<close> and \<^verbatim>\<open>status.type\<close>.
\<close>

datatype status =
    Future | Ready | Broadcast | InBlock | Retracted
  | FinalityTimeout | Finalized | Usurped | Dropped | Invalid

fun status_type :: "status \<Rightarrow> string" where
  "status_type Future = ''Future''"
| "status_type Ready = ''Ready''"
| "status_type Broadcast = ''Broadcast''"
| "status_type InBlock = ''InBlock''"
| "status_type Retracted = ''Retracted''"
| "status_type FinalityTimeout = ''FinalityTimeout''"
| "status_type Finalized = ''Finalized''"
| "status_type Usurped = ''Usurped''"
| "status_type Dropped = ''Dropped''"
| "status_type Invalid = ''Invalid''"

definition isInvalid :: "status \<Rightarrow> bool" where
  "isInvalid s = (s = Invalid)"

definition isDropped :: "status \<Rightarrow> bool" where
  "isDropped s = (s = Dropped)"

definition isUsurped :: "status \<Rightarrow> bool" where
  "isUsurped s = (s = Usurped)"

definition isRetracted :: "status \<Rightarrow> bool" where
  "isRetracted s = (s = Retracted)"

definition isInBlock :: "status \<Rightarrow> bool" where
  "isInBlock s = (s = InBlock)"

text \<open>
  An on-chain event, as the callback destructures it: \<^verbatim>\<open>{event: {method, section}}\<close>.
  (\<open>ev_section\<close> and \<open>ev_method\<close> stand for the source's \<^verbatim>\<open>section\<close> and \<^verbatim>\<open>method\<close>.)
\<close>

record event =
  ev_method :: string
  ev_section :: string

text \<open>
  One notification, as the callback destructures it: \<^verbatim>\<open>{events = [], status}\<close>. The
  default of the source makes a missing event list the empty list.
\<close>

record notification =
  events :: "event list"
  status :: status

text \<open>The promise that \<^verbatim>\<open>sendTx\<close> returns: pending, fulfilled with a boolean, or rejected.\<close>

datatype promise = Pending | Fulfilled bool | PRejected js_error

text \<open>
  The transaction \<^verbatim>\<open>crustChain.tx.market.placeStorageOrder(cid, cumulativeSize, 0)\<close>, and the
  key pair that \<^verbatim>\<open>kr.addFromUri(seeds)\<close> returns.
\<close>

datatype tx = placeStorageOrder string nat nat

datatype keypair = KeyringPair string

text \<open>
  What \<^verbatim>\<open>tx.signAndSend(krp, callback)\<close> does: its promise rejects with a cause before any
  notification is delivered, or the subscription is established and the node emits the
  given notifications in order.
\<close>

datatype submission = SubmitFails js_error | Subscribed "notification list"

text \<open>
  The observable effects, in the order they happen: the lines written to the console
  (\<^verbatim>\<open>tx.nonce\<close> and \<^verbatim>\<open>tx.type\<close>, which two of the messages interpolate, are left out) and the
  call of \<^verbatim>\<open>signAndSend\<close>.
\<close>

datatype effect =
    SendTxToChain
  | SignAndSend tx keypair
  | TransactionStatus string
  | SendTransactionFailed
  | SendTransactionSuccess
  | CumulativeSize nat
  | PublishSuccess string
  | PublishFailed
  | LoggedError js_error

record sendTx_state =
  promise :: promise
  trace :: "effect list"

text \<open>The collaborators: the pinning service, the key ring and the chain node.\<close>

record stat_result =
  cumulativeSize :: nat

record response_data =
  Pins :: "string list"
  result :: "string option"

record response =
  resp_status :: nat
  resp_data :: response_data

record collaborators =
  request :: "js_error + response"
  files_stat :: "string \<Rightarrow> js_error + stat_result"
  isReadyOrError :: "js_error + unit"
  addFromUri :: "string \<Rightarrow> js_error + keypair"
  signAndSend :: "tx \<Rightarrow> keypair \<Rightarrow> submission"

text \<open>
  The validated input of \<^verbatim>\<open>createRequest\<close>, and what it passes to its \<^verbatim>\<open>callback\<close>: a status code
  with \<^verbatim>\<open>Requester.success(jobRunID, response)\<close> or \<^verbatim>\<open>Requester.errored(jobRunID, error)\<close>.
\<close>

record params =
  jobRunID :: string
  cid :: string
  crustOrderSeeds :: string

datatype adapter_data = success string response | errored string js_error

record pipeline_result =
  callback_args :: "(nat \<times> adapter_data) option"
  effects :: "effect list"

section \<open>\<^verbatim>\<open>sendTx\<close> (\<^verbatim>\<open>src/utils.js\<close>)\<close>

text \<open>\<^verbatim>\<open>resolve\<close> and \<^verbatim>\<open>reject\<close> of a promise: only the first call settles it.\<close>

definition resolve :: "bool \<Rightarrow> promise \<Rightarrow> promise" where
  "resolve v p = (case p of Pending \<Rightarrow> Fulfilled v | _ \<Rightarrow> p)"

definition reject :: "js_error \<Rightarrow> promise \<Rightarrow> promise" where
  "reject e p = (case p of Pending \<Rightarrow> PRejected e | _ \<Rightarrow> p)"

text \<open>The body of \<^verbatim>\<open>events.forEach\<close> (lines 30 to 39).\<close>

definition onEvent :: "event \<Rightarrow> sendTx_state \<Rightarrow> sendTx_state" where
  "onEvent ev s =
     (if ev_section ev = ''system'' \<and> ev_method ev = ''ExtrinsicFailed''
      then \<lparr>promise = resolve False (promise s), trace = trace s @ [SendTransactionFailed]\<rparr>
      else if ev_method ev = ''ExtrinsicSuccess''
      then \<lparr>promise = resolve True (promise s), trace = trace s @ [SendTransactionSuccess]\<rparr>
      else s)"

text \<open>The callback given to \<^verbatim>\<open>signAndSend\<close> (lines 13 to 42), run once for each notification.\<close>

definition callback :: "notification \<Rightarrow> sendTx_state \<Rightarrow> sendTx_state" where
  "callback n s =
     (let s0 = \<lparr>promise = promise s,
                trace = trace s @ [TransactionStatus (status_type (status n))]\<rparr>;
          s1 = (if isInvalid (status n) \<or> isDropped (status n) \<or>
                   isUsurped (status n) \<or> isRetracted (status n)
                then \<lparr>promise = reject (Error ''Invalid transaction'') (promise s0),
                      trace = trace s0\<rparr>
                else s0)
      in if isInBlock (status n) then fold onEvent (events n) s1 else s1)"

text \<open>
  The source keeps no handle of the subscription and never ends it, so the callback runs
  for every notification that the node emits.
\<close>

definition deliver :: "notification list \<Rightarrow> sendTx_state \<Rightarrow> sendTx_state" where
  "deliver ns s = fold callback ns s"

definition loadKeyringPair :: "collaborators \<Rightarrow> string \<Rightarrow> js_error + keypair" where
  "loadKeyringPair env seeds = addFromUri env seeds"

text \<open>
  \<^verbatim>\<open>sendTx(tx, seeds)\<close>, started with the effects \<open>c\<close> that happened before it. An exception
  of \<^verbatim>\<open>loadKeyringPair\<close> rejects the promise of the \<^verbatim>\<open>async\<close> function; a rejection of
  \<^verbatim>\<open>signAndSend\<close> reaches \<^verbatim>\<open>reject(e)\<close> through \<^verbatim>\<open>.catch\<close>.
\<close>

definition sendTx :: "collaborators \<Rightarrow> tx \<Rightarrow> string \<Rightarrow> effect list \<Rightarrow> sendTx_state" where
  "sendTx env t seeds c =
     (case loadKeyringPair env seeds of
        Inl e \<Rightarrow> \<lparr>promise = PRejected e, trace = c @ [SendTxToChain]\<rparr>
      | Inr krp \<Rightarrow>
          (let s = \<lparr>promise = Pending, trace = c @ [SendTxToChain, SignAndSend t krp]\<rparr>
           in case signAndSend env t krp of
                SubmitFails e \<Rightarrow> \<lparr>promise = reject e (promise s), trace = trace s\<rparr>
              | Subscribed ns \<Rightarrow> deliver ns s))"

section \<open>\<^verbatim>\<open>createRequest\<close> (\<^verbatim>\<open>src/index.js\<close>)\<close>

text \<open>The \<^verbatim>\<open>.catch\<close> handler (lines 122 to 125).\<close>

definition catch_error :: "string \<Rightarrow> js_error \<Rightarrow> effect list \<Rightarrow> pipeline_result" where
  "catch_error job e c =
     \<lparr>callback_args = Some (500, errored job e), effects = c @ [LoggedError e]\<rparr>"

text \<open>
  \<^verbatim>\<open>createRequest\<close> from \<^verbatim>\<open>Requester.request\<close> on (lines 93 to 125); validation, the defaults
  of the parameters and the optional \<^verbatim>\<open>swarm.connect\<close> (whose error is ignored) come before
  and choose the endpoints whose answers \<open>env\<close> holds. A promise of \<^verbatim>\<open>sendTx\<close> that
  stays pending leaves \<^verbatim>\<open>await\<close> suspended: the callback is never called, which is
  \<open>callback_args = None\<close>. The earlier version of the function in \<^verbatim>\<open>src/unnamed/part_000\<close>
  (lines 59 to 91) is the same from here on, without the console line of the size.
\<close>

definition createRequest :: "collaborators \<Rightarrow> params \<Rightarrow> pipeline_result" where
  "createRequest env inp =
     (case request env of
        Inl e \<Rightarrow> catch_error (jobRunID inp) e []
      | Inr rsp \<Rightarrow>
          (case files_stat env (''/ipfs/'' @ cid inp) of
             Inl e \<Rightarrow> catch_error (jobRunID inp) e []
           | Inr statRes \<Rightarrow>
               (let c = [CumulativeSize (cumulativeSize statRes)]
                in case isReadyOrError env of
                     Inl e \<Rightarrow> catch_error (jobRunID inp) e c
                   | Inr _ \<Rightarrow>
                       (let t = placeStorageOrder (cid inp) (cumulativeSize statRes) 0;
                            s = sendTx env t (crustOrderSeeds inp) c
                        in case promise s of
                             Pending \<Rightarrow> \<lparr>callback_args = None, effects = trace s\<rparr>
                           | PRejected e \<Rightarrow> catch_error (jobRunID inp) e (trace s)
                           | Fulfilled res \<Rightarrow>
                               \<lparr>callback_args =
                                  Some (resp_status rsp,
                                        success (jobRunID inp)
                                          (rsp\<lparr>resp_data := (resp_data rsp)\<lparr>result := Some (cid inp)\<rparr>\<rparr>)),
                                effects = trace s @
                                  [if res then PublishSuccess (cid inp) else PublishFailed]\<rparr>))))"

section \<open>Reading the results\<close>

text \<open>
  The scan as the specification words it: a linear scan that stops at the first event
  matching the failure pattern or the success pattern, and gives that event's decision
  (\<open>Some False\<close> for a failure, \<open>Some True\<close> for a success, \<open>None\<close> when no event matches).
\<close>

fun first_match_scan :: "event list \<Rightarrow> bool option" where
  "first_match_scan [] = None"
| "first_match_scan (ev # evs) =
     (if ev_section ev = ''system'' \<and> ev_method ev = ''ExtrinsicFailed'' then Some False
      else if ev_method ev = ''ExtrinsicSuccess'' then Some True
      else first_match_scan evs)"

text \<open>
  The notifications that settle a pending promise: one with a status of the test in lines
  18 to 23, or an \<^verbatim>\<open>InBlock\<close> one with an event that matches line 31 or line 35.
\<close>

definition resolving :: "notification \<Rightarrow> bool" where
  "resolving n =
     (isInvalid (status n) \<or> isDropped (status n) \<or> isUsurped (status n) \<or>
      isRetracted (status n) \<or>
      (isInBlock (status n) \<and> first_match_scan (events n) \<noteq> None))"

text \<open>A decision, when there is one, is passed to \<^verbatim>\<open>resolve\<close>.\<close>

definition decide :: "bool option \<Rightarrow> promise \<Rightarrow> promise" where
  "decide d p = (case d of None \<Rightarrow> p | Some b \<Rightarrow> resolve b p)"

text \<open>
  Two readings of the effects: the status lines, one for each run of the callback, and
  the calls of \<^verbatim>\<open>signAndSend\<close>.
\<close>

fun status_lines :: "effect list \<Rightarrow> string list" where
  "status_lines [] = []"
| "status_lines (TransactionStatus x # es) = x # status_lines es"
| "status_lines (e # es) = status_lines es"

fun submitted :: "effect list \<Rightarrow> (tx \<times> keypair) list" where
  "submitted [] = []"
| "submitted (SignAndSend t k # es) = (t, k) # submitted es"
| "submitted (e # es) = submitted es"

section \<open>Example inputs\<close>

text \<open>
  A pinning service that has pinned \<^verbatim>\<open>QmTest1\<close> (1024 bytes), a key ring that accepts every seed
  and a node that answers the storage order of that file with the given submission.
\<close>

definition example_response :: response where
  "example_response = \<lparr>resp_status = 200, resp_data = \<lparr>Pins = [''QmTest1''], result = None\<rparr>\<rparr>"

definition example_tx :: tx where
  "example_tx = placeStorageOrder ''QmTest1'' 1024 0"

definition example_env :: "submission \<Rightarrow> collaborators" where
  "example_env sub =
     \<lparr>request = Inr example_response,
      files_stat = (\<lambda>p. if p = ''/ipfs/QmTest1'' then Inr \<lparr>cumulativeSize = 1024\<rparr>
                         else Inl (Error ''no such file'')),
      isReadyOrError = Inr (),
      addFromUri = (\<lambda>seeds. Inr (KeyringPair seeds)),
      signAndSend = (\<lambda>t k. if t = example_tx then sub
                             else SubmitFails (Error ''unexpected transaction''))\<rparr>"

definition example_params :: params where
  "example_params = \<lparr>jobRunID = ''1'', cid = ''QmTest1'', crustOrderSeeds = ''//Alice''\<rparr>"

definition success_event :: event where
  "success_event = \<lparr>ev_method = ''ExtrinsicSuccess'', ev_section = ''system''\<rparr>"

definition failed_event :: event where
  "failed_event = \<lparr>ev_method = ''ExtrinsicFailed'', ev_section = ''system''\<rparr>"

definition in_block :: "event list \<Rightarrow> notification" where
  "in_block evs = \<lparr>events = evs, status = InBlock\<rparr>"

definition bare :: "status \<Rightarrow> notification" where
  "bare st = \<lparr>events = [], status = st\<rparr>"

section \<open>Lemmas on the promise and the effects\<close>

lemmas example_defs =
  example_response_def example_tx_def example_env_def example_params_def
  success_event_def failed_event_def in_block_def bare_def

lemmas sendTx_defs =
  sendTx_def loadKeyringPair_def deliver_def callback_def onEvent_def resolve_def reject_def
  isInvalid_def isDropped_def isUsurped_def isRetracted_def isInBlock_def Let_def

lemma resolve_settled: "p \<noteq> Pending \<Longrightarrow> resolve v p = p"
  by (cases p) (simp_all add: resolve_def)

lemma reject_settled: "p \<noteq> Pending \<Longrightarrow> reject e p = p"
  by (cases p) (simp_all add: reject_def)

lemma resolve_Pending: "resolve v Pending = Fulfilled v"
  by (simp add: resolve_def)

lemma reject_Pending: "reject e Pending = PRejected e"
  by (simp add: reject_def)

lemma resolve_resolve: "resolve v (resolve w p) = resolve w p"
  by (cases p) (simp_all add: resolve_def)

lemma promise_onEvent:
  "promise (onEvent ev s) = decide (first_match_scan [ev]) (promise s)"
  by (simp add: onEvent_def decide_def)

lemma promise_fold_onEvent:
  "promise (fold onEvent evs s) = decide (first_match_scan evs) (promise s)"
proof (induction evs arbitrary: s)
  case Nil
  show ?case by (simp add: decide_def)
next
  case (Cons ev evs)
  have "promise (fold onEvent (ev # evs) s) = decide (first_match_scan evs) (promise (onEvent ev s))"
    using Cons.IH [of "onEvent ev s"] by simp
  also have "\<dots> = decide (first_match_scan (ev # evs)) (promise s)"
    by (cases "first_match_scan evs") (simp_all add: onEvent_def decide_def resolve_resolve)
  finally show ?case .
qed

lemma decide_settled: "p \<noteq> Pending \<Longrightarrow> decide d p = p"
  by (cases d) (simp_all add: decide_def resolve_settled)

lemma promise_callback_settled:
  "promise s \<noteq> Pending \<Longrightarrow> promise (callback n s) = promise s"
  by (simp add: callback_def Let_def promise_fold_onEvent decide_settled reject_settled)

lemma promise_deliver_settled:
  "promise s \<noteq> Pending \<Longrightarrow> promise (deliver ns s) = promise s"
proof (induction ns arbitrary: s)
  case Nil
  show ?case by (simp add: deliver_def)
next
  case (Cons n ns)
  from Cons.prems have "promise (callback n s) \<noteq> Pending"
    by (simp add: promise_callback_settled)
  then have "promise (deliver ns (callback n s)) = promise (callback n s)"
    by (rule Cons.IH)
  with Cons.prems show ?case
    by (simp add: deliver_def promise_callback_settled)
qed

lemma deliver_append: "deliver (ns @ ms) s = deliver ms (deliver ns s)"
  by (simp add: deliver_def)

lemma deliver_Cons: "deliver (n # ns) s = deliver ns (callback n s)"
  by (simp add: deliver_def)

lemma deliver_Nil: "deliver [] s = s"
  by (simp add: deliver_def)

text \<open>The promise never depends on the effects recorded so far.\<close>
lemma promise_callback:
  "promise (callback n s) =
     (if isInBlock (status n) then decide (first_match_scan (events n)) (promise s)
      else if isInvalid (status n) \<or> isDropped (status n) \<or>
                   isUsurped (status n) \<or> isRetracted (status n)
           then reject (Error ''Invalid transaction'') (promise s) else promise s)"
proof (cases "isInBlock (status n)")
  case True
  then have "\<not> (isInvalid (status n) \<or> isDropped (status n) \<or>
                   isUsurped (status n) \<or> isRetracted (status n))"
    by (simp add: isInBlock_def isInvalid_def isDropped_def isUsurped_def isRetracted_def)
  with True show ?thesis
    by (simp add: callback_def Let_def promise_fold_onEvent)
next
  case False
  then show ?thesis
    by (simp add: callback_def Let_def)
qed

lemma promise_callback_trace:
  assumes "promise s = promise s'"
  shows "promise (callback n s) = promise (callback n s')"
  unfolding promise_callback assms ..

lemma promise_deliver_trace:
  "promise s = promise s' \<Longrightarrow> promise (deliver ns s) = promise (deliver ns s')"
proof (induction ns arbitrary: s s')
  case Nil
  then show ?case by (simp add: deliver_def)
next
  case (Cons n ns)
  have "promise (callback n s) = promise (callback n s')"
    using Cons.prems by (rule promise_callback_trace)
  then have "promise (deliver ns (callback n s)) = promise (deliver ns (callback n s'))"
    by (rule Cons.IH)
  then show ?case
    by (simp add: deliver_Cons)
qed

lemma sendTx_subscribed:
  "loadKeyringPair env seeds = Inr krp \<Longrightarrow> signAndSend env t krp = Subscribed ns \<Longrightarrow>
   sendTx env t seeds c =
     deliver ns \<lparr>promise = Pending, trace = c @ [SendTxToChain, SignAndSend t krp]\<rparr>"
  by (simp add: sendTx_def)

lemma status_lines_append: "status_lines (xs @ ys) = status_lines xs @ status_lines ys"
  by (induction xs rule: status_lines.induct) simp_all

lemma submitted_append: "submitted (xs @ ys) = submitted xs @ submitted ys"
  by (induction xs rule: submitted.induct) simp_all

lemma trace_fold_onEvent_status:
  "status_lines (trace (fold onEvent evs s)) = status_lines (trace s)"
  by (induction evs arbitrary: s) (simp_all add: onEvent_def status_lines_append)

lemma trace_fold_onEvent_submitted:
  "submitted (trace (fold onEvent evs s)) = submitted (trace s)"
  by (induction evs arbitrary: s) (simp_all add: onEvent_def submitted_append)

lemma status_lines_callback:
  "status_lines (trace (callback n s)) = status_lines (trace s) @ [status_type (status n)]"
  by (simp add: callback_def Let_def trace_fold_onEvent_status status_lines_append)

lemma submitted_callback:
  "submitted (trace (callback n s)) = submitted (trace s)"
  by (simp add: callback_def Let_def trace_fold_onEvent_submitted submitted_append)

lemma status_lines_deliver:
  "status_lines (trace (deliver ns s)) = status_lines (trace s) @ map (\<lambda>n. status_type (status n)) ns"
  by (induction ns arbitrary: s) (simp_all add: deliver_Cons deliver_Nil status_lines_callback)

lemma submitted_deliver:
  "submitted (trace (deliver ns s)) = submitted (trace s)"
  by (induction ns arbitrary: s) (simp_all add: deliver_Cons deliver_Nil submitted_callback)

lemma first_match_scan_failure:
  assumes "ev_section ev = ''system''" and "ev_method ev = ''ExtrinsicFailed''"
    and "\<forall>e \<in> set evs1. ev_method e \<noteq> ''ExtrinsicSuccess''"
  shows "first_match_scan (evs1 @ ev # evs2) = Some False"
  using assms by (induction evs1) simp_all

lemma first_match_scan_success:
  assumes "ev_method ev = ''ExtrinsicSuccess''"
    and "\<forall>e \<in> set evs1. \<not> (ev_section e = ''system'' \<and> ev_method e = ''ExtrinsicFailed'')"
  shows "first_match_scan (evs1 @ ev # evs2) = Some True"
  using assms by (induction evs1) auto

lemma first_match_scan_append:
  "first_match_scan (evs1 @ evs2) =
     (case first_match_scan evs1 of None \<Rightarrow> first_match_scan evs2 | Some b \<Rightarrow> Some b)"
  by (induction evs1) simp_all

lemma fold_onEvent_ignored:
  assumes "ev_method ev = ''ExtrinsicFailed''" and "ev_section ev \<noteq> ''system''"
  shows "fold onEvent (evs1 @ ev # evs2) s = fold onEvent (evs1 @ evs2) s"
proof -
  have "onEvent ev s' = s'" for s'
    using assms by (simp add: onEvent_def)
  then show ?thesis by simp
qed

lemma promise_sendTx_split:
  assumes "loadKeyringPair env seeds = Inr krp"
    and "signAndSend env t krp = Subscribed (pre @ post)"
  shows "promise (sendTx env t seeds c) =
         promise (deliver post (deliver pre \<lparr>promise = Pending, trace = []\<rparr>))"
proof -
  let ?s = "\<lparr>promise = Pending, trace = c @ [SendTxToChain, SignAndSend t krp]\<rparr>"
  have "promise (deliver pre ?s) = promise (deliver pre \<lparr>promise = Pending, trace = []\<rparr>)"
    by (rule promise_deliver_trace) simp
  then have "promise (deliver post (deliver pre ?s)) =
             promise (deliver post (deliver pre \<lparr>promise = Pending, trace = []\<rparr>))"
    by (rule promise_deliver_trace)
  then show ?thesis
    by (simp add: sendTx_subscribed [OF assms] deliver_append)
qed

lemma promise_callback_InBlock:
  "isInBlock (status n) \<Longrightarrow> promise s = Pending \<Longrightarrow> first_match_scan (events n) = Some b \<Longrightarrow>
   promise (callback n s) = Fulfilled b"
  by (simp add: promise_callback decide_def resolve_def)

lemma promise_callback_invalid:
  "isInvalid (status n) \<or> isDropped (status n) \<or> isUsurped (status n) \<or> isRetracted (status n) \<Longrightarrow>
   promise s = Pending \<Longrightarrow> promise (callback n s) = PRejected (Error ''Invalid transaction'')"
  by (auto simp add: promise_callback reject_def isInBlock_def isInvalid_def isDropped_def
      isUsurped_def isRetracted_def)

lemma submitted_sendTx:
  "submitted (trace (sendTx env t seeds c)) =
     submitted c @ (case loadKeyringPair env seeds of Inl e \<Rightarrow> [] | Inr krp \<Rightarrow> [(t, krp)])"
proof (cases "loadKeyringPair env seeds")
  case (Inl e)
  then show ?thesis by (simp add: sendTx_def submitted_append)
next
  case (Inr krp)
  show ?thesis
  proof (cases "signAndSend env t krp")
    case (SubmitFails e)
    with Inr show ?thesis by (simp add: sendTx_def submitted_append)
  next
    case (Subscribed ns)
    with Inr show ?thesis by (simp add: sendTx_def submitted_deliver submitted_append)
  qed
qed

lemma callback_args_fulfilled:
  assumes "request env = Inr rsp"
    and "files_stat env (''/ipfs/'' @ cid inp) = Inr st"
    and "isReadyOrError env = Inr u"
    and "promise (sendTx env (placeStorageOrder (cid inp) (cumulativeSize st) 0)
           (crustOrderSeeds inp) [CumulativeSize (cumulativeSize st)]) = Fulfilled res"
  shows "callback_args (createRequest env inp) =
         Some (resp_status rsp,
               success (jobRunID inp) (rsp\<lparr>resp_data := (resp_data rsp)\<lparr>result := Some (cid inp)\<rparr>\<rparr>))"
  using assms by (simp add: createRequest_def Let_def)

lemma callback_args_rejected:
  assumes "request env = Inr rsp"
    and "files_stat env (''/ipfs/'' @ cid inp) = Inr st"
    and "isReadyOrError env = Inr u"
    and "promise (sendTx env (placeStorageOrder (cid inp) (cumulativeSize st) 0)
           (crustOrderSeeds inp) [CumulativeSize (cumulativeSize st)]) = PRejected e"
  shows "callback_args (createRequest env inp) = Some (500, errored (jobRunID inp) e)"
  using assms by (simp add: createRequest_def Let_def catch_error_def)

lemma promise_callback_not_resolving:
  assumes "\<not> resolving n" and "promise s = Pending"
  shows "promise (callback n s) = Pending"
  using assms by (auto simp add: resolving_def promise_callback decide_def)

lemma promise_deliver_not_resolving:
  assumes "\<forall>n \<in> set ns. \<not> resolving n" and "promise s = Pending"
  shows "promise (deliver ns s) = Pending"
  using assms
proof (induction ns arbitrary: s)
  case Nil
  then show ?case by (simp add: deliver_Nil)
next
  case (Cons n ns)
  from Cons.prems have "promise (callback n s) = Pending"
    by (simp add: promise_callback_not_resolving)
  with Cons.prems have "promise (deliver ns (callback n s)) = Pending"
    by (intro Cons.IH) simp_all
  then show ?case by (simp add: deliver_Cons)
qed

lemma promise_callback_resolving:
  assumes "resolving n" and "promise s = Pending"
  shows "promise (callback n s) \<noteq> Pending \<and>
         (\<not> isInBlock (status n) \<longrightarrow>
            promise (callback n s) = PRejected (Error ''Invalid transaction'')) \<and>
         (isInBlock (status n) \<longrightarrow>
            Some (promise (callback n s)) = map_option Fulfilled (first_match_scan (events n)))"
proof (cases "isInBlock (status n)")
  case True
  then have "\<not> (isInvalid (status n) \<or> isDropped (status n) \<or> isUsurped (status n) \<or>
      isRetracted (status n))"
    by (simp add: isInBlock_def isInvalid_def isDropped_def isUsurped_def isRetracted_def)
  with assms(1) True obtain b where b: "first_match_scan (events n) = Some b"
    by (auto simp add: resolving_def)
  with True assms(2) have "promise (callback n s) = Fulfilled b"
    by (simp add: promise_callback_InBlock)
  with True b show ?thesis by simp
next
  case False
  with assms(1) have "isInvalid (status n) \<or> isDropped (status n) \<or> isUsurped (status n) \<or>
      isRetracted (status n)"
    by (simp add: resolving_def)
  then have "promise (callback n s) = PRejected (Error ''Invalid transaction'')"
    using assms(2) by (rule promise_callback_invalid)
  with False show ?thesis by simp
qed

section \<open>The claims\<close>

text \<open>
  C1. The claim asks that an execution failure (\<^verbatim>\<open>sendTx\<close> resolves \<^verbatim>\<open>false\<close>) reaches the
  caller as a result distinct from success. In the code the two runs differ only in the
  console line: for the stream with one \<^verbatim>\<open>InBlock\<close> notification carrying
  \<^verbatim>\<open>system.ExtrinsicFailed\<close> the promise is fulfilled with \<^verbatim>\<open>false\<close>, for the one carrying
  \<^verbatim>\<open>ExtrinsicSuccess\<close> with \<^verbatim>\<open>true\<close>, and \<^verbatim>\<open>createRequest\<close> calls back with the same status code
  and the same \<^verbatim>\<open>Requester.success\<close> data, whose result is the content identifier, in both.
\<close>

theorem createRequest_failed_reported_as_success:
  "promise (sendTx (example_env (Subscribed [in_block [failed_event]])) example_tx ''//Alice'' [])
     = Fulfilled False \<and>
   promise (sendTx (example_env (Subscribed [in_block [success_event]])) example_tx ''//Alice'' [])
     = Fulfilled True \<and>
   callback_args (createRequest (example_env (Subscribed [in_block [failed_event]])) example_params)
     = callback_args (createRequest (example_env (Subscribed [in_block [success_event]])) example_params) \<and>
   callback_args (createRequest (example_env (Subscribed [in_block [failed_event]])) example_params)
     = Some (200, success ''1''
         \<lparr>resp_status = 200, resp_data = \<lparr>Pins = [''QmTest1''], result = Some ''QmTest1''\<rparr>\<rparr>)"
  by (simp add: createRequest_def sendTx_defs example_defs)

text \<open>
  C2 (amended). When the first notification of the stream has one of the statuses
  \<^verbatim>\<open>Invalid\<close>, \<^verbatim>\<open>Dropped\<close>, \<^verbatim>\<open>Usurped\<close>, \<^verbatim>\<open>Retracted\<close>, the callback rejects the promise at that
  notification, and whatever follows in the stream the promise of \<^verbatim>\<open>sendTx\<close> stays rejected
  with that error. The error is always \<^verbatim>\<open>new Error('Invalid transaction')\<close>: the status tag
  is not carried as the reason.
\<close>

theorem sendTx_invalidated:
  assumes "loadKeyringPair env seeds = Inr krp"
    and "signAndSend env t krp = Subscribed (n # ns)"
    and "isInvalid (status n) \<or> isDropped (status n) \<or> isUsurped (status n) \<or> isRetracted (status n)"
  shows "promise (callback n \<lparr>promise = Pending, trace = c'\<rparr>) = PRejected (Error ''Invalid transaction'') \<and>
         promise (sendTx env t seeds c) = PRejected (Error ''Invalid transaction'')"
proof -
  have first: "promise (callback n s) = PRejected (Error ''Invalid transaction'')"
    if "promise s = Pending" for s :: sendTx_state
    using assms(3) that by (rule promise_callback_invalid)
  have "promise (sendTx env t seeds c) =
        promise (deliver ns (deliver [n] \<lparr>promise = Pending, trace = []\<rparr>))"
    using promise_sendTx_split [of env seeds krp t "[n]" ns c] assms(1,2) by simp
  also have "\<dots> = promise (deliver [n] \<lparr>promise = Pending, trace = []\<rparr>)"
    by (rule promise_deliver_settled) (simp add: deliver_Cons deliver_Nil first)
  also have "\<dots> = PRejected (Error ''Invalid transaction'')"
    by (simp add: deliver_Cons deliver_Nil first)
  finally show ?thesis
    by (simp add: first)
qed

theorem sendTx_invalidated_witness:
  "promise (sendTx (example_env (Subscribed [bare Dropped, in_block [success_event]]))
      example_tx ''//Alice'' []) = PRejected (Error ''Invalid transaction'')"
  using sendTx_invalidated [of "example_env (Subscribed [bare Dropped, in_block [success_event]])"
      "''//Alice''" "KeyringPair ''//Alice''" example_tx "bare Dropped" "[in_block [success_event]]" "[]" "[]"]
  by (simp add: loadKeyringPair_def example_env_def bare_def isDropped_def)

text \<open>
  The claim as stated, with the tag as the reason, fails on the stream of the single
  notification \<^verbatim>\<open>Dropped\<close>: the error does not name the tag, and the stream of the single
  notification \<^verbatim>\<open>Usurped\<close> gives the same promise.
\<close>

theorem sendTx_dropped_reason_counterexample:
  "promise (sendTx (example_env (Subscribed [bare Dropped])) example_tx ''//Alice'' [])
     \<noteq> PRejected (Error (status_type Dropped)) \<and>
   promise (sendTx (example_env (Subscribed [bare Dropped])) example_tx ''//Alice'' [])
     = promise (sendTx (example_env (Subscribed [bare Usurped])) example_tx ''//Alice'' [])"
  by (simp add: sendTx_defs example_defs)

text \<open>
  C3 (amended). When the promise is still pending as an \<^verbatim>\<open>InBlock\<close> notification arrives
  whose event list holds an event of section \<^verbatim>\<open>system\<close> and method \<^verbatim>\<open>ExtrinsicFailed\<close> with no
  \<^verbatim>\<open>ExtrinsicSuccess\<close> event before it, the promise of \<^verbatim>\<open>sendTx\<close> is fulfilled with \<^verbatim>\<open>false\<close>
  (execution failed), whatever follows in the stream, and so never with \<^verbatim>\<open>true\<close>.
\<close>

theorem sendTx_execution_failed:
  assumes "loadKeyringPair env seeds = Inr krp"
    and "signAndSend env t krp = Subscribed (pre @ n # post)"
    and "promise (deliver pre \<lparr>promise = Pending, trace = []\<rparr>) = Pending"
    and "isInBlock (status n)"
    and "events n = evs1 @ ev # evs2"
    and "ev_section ev = ''system''" and "ev_method ev = ''ExtrinsicFailed''"
    and "\<forall>e \<in> set evs1. ev_method e \<noteq> ''ExtrinsicSuccess''"
  shows "promise (sendTx env t seeds c) = Fulfilled False"
proof -
  let ?s = "deliver pre \<lparr>promise = Pending, trace = []\<rparr>"
  have scan: "first_match_scan (events n) = Some False"
    unfolding assms(5) using assms(6,7,8) by (rule first_match_scan_failure)
  have at_n: "promise (callback n ?s) = Fulfilled False"
    using assms(4,3) scan by (rule promise_callback_InBlock)
  have "promise (sendTx env t seeds c) = promise (deliver (n # post) ?s)"
    using assms(1,2) by (rule promise_sendTx_split)
  also have "\<dots> = promise (deliver post (callback n ?s))"
    by (simp add: deliver_Cons)
  also have "\<dots> = promise (callback n ?s)"
    by (rule promise_deliver_settled) (simp add: at_n)
  finally show ?thesis
    by (simp add: at_n)
qed

theorem sendTx_execution_failed_witness:
  "promise (sendTx (example_env (Subscribed [bare Ready, in_block [failed_event, success_event], bare Finalized]))
      example_tx ''//Alice'' []) = Fulfilled False"
  using sendTx_execution_failed [of "example_env (Subscribed [bare Ready, in_block [failed_event, success_event], bare Finalized])"
      "''//Alice''" "KeyringPair ''//Alice''" example_tx "[bare Ready]" "in_block [failed_event, success_event]"
      "[bare Finalized]" "[]" failed_event "[success_event]" "[]"]
  by (simp add: loadKeyringPair_def example_env_def bare_def in_block_def failed_event_def
      isInBlock_def deliver_def callback_def isInvalid_def isDropped_def isUsurped_def isRetracted_def)

text \<open>
  Without the two conditions the claim fails: a success event before the failure event in
  the same list fulfils the promise with \<^verbatim>\<open>true\<close>, and an earlier \<^verbatim>\<open>Dropped\<close> notification has
  already rejected it.
\<close>

theorem sendTx_execution_failed_counterexample:
  "promise (sendTx (example_env (Subscribed [in_block [success_event, failed_event]]))
      example_tx ''//Alice'' []) = Fulfilled True \<and>
   promise (sendTx (example_env (Subscribed [bare Dropped, in_block [failed_event]]))
      example_tx ''//Alice'' []) = PRejected (Error ''Invalid transaction'')"
  by (simp add: sendTx_defs example_defs)

text \<open>
  C4 (amended). In a run of \<^verbatim>\<open>createRequest\<close> that reaches \<^verbatim>\<open>sendTx\<close>, when the promise is still
  pending as an \<^verbatim>\<open>InBlock\<close> notification arrives whose event list holds an \<^verbatim>\<open>ExtrinsicSuccess\<close>
  event with no \<^verbatim>\<open>system\<close> \<^verbatim>\<open>ExtrinsicFailed\<close> event before it, the promise is fulfilled with
  \<^verbatim>\<open>true\<close> at that notification (the stream cut after it already gives \<^verbatim>\<open>true\<close>), no later
  notification, \<^verbatim>\<open>Finalized\<close> or other, is needed or changes it, and \<^verbatim>\<open>createRequest\<close> calls back
  with the status of the pin response and the content identifier as the result.
\<close>

theorem sendTx_confirmed_in_block:
  assumes "request env = Inr rsp"
    and "files_stat env (''/ipfs/'' @ cid inp) = Inr st"
    and "isReadyOrError env = Inr u"
    and "loadKeyringPair env (crustOrderSeeds inp) = Inr krp"
    and "signAndSend env (placeStorageOrder (cid inp) (cumulativeSize st) 0) krp =
           Subscribed (pre @ n # post)"
    and "promise (deliver pre \<lparr>promise = Pending, trace = []\<rparr>) = Pending"
    and "isInBlock (status n)"
    and "events n = evs1 @ ev # evs2"
    and "ev_method ev = ''ExtrinsicSuccess''"
    and "\<forall>e \<in> set evs1. \<not> (ev_section e = ''system'' \<and> ev_method e = ''ExtrinsicFailed'')"
  shows "promise (deliver (pre @ [n]) \<lparr>promise = Pending, trace = []\<rparr>) = Fulfilled True \<and>
         promise (sendTx env (placeStorageOrder (cid inp) (cumulativeSize st) 0)
           (crustOrderSeeds inp) c) = Fulfilled True \<and>
         callback_args (createRequest env inp) =
           Some (resp_status rsp,
                 success (jobRunID inp) (rsp\<lparr>resp_data := (resp_data rsp)\<lparr>result := Some (cid inp)\<rparr>\<rparr>))"
proof -
  let ?s = "deliver pre \<lparr>promise = Pending, trace = []\<rparr>"
  let ?t = "placeStorageOrder (cid inp) (cumulativeSize st) 0"
  have scan: "first_match_scan (events n) = Some True"
    unfolding assms(8) using assms(9,10) by (rule first_match_scan_success)
  have at_n: "promise (callback n ?s) = Fulfilled True"
    using assms(7,6) scan by (rule promise_callback_InBlock)
  have sent: "promise (sendTx env ?t (crustOrderSeeds inp) c') = Fulfilled True" for c'
  proof -
    have "promise (sendTx env ?t (crustOrderSeeds inp) c') = promise (deliver (n # post) ?s)"
      using assms(4,5) by (rule promise_sendTx_split)
    also have "\<dots> = promise (deliver post (callback n ?s))"
      by (simp add: deliver_Cons)
    also have "\<dots> = promise (callback n ?s)"
      by (rule promise_deliver_settled) (simp add: at_n)
    finally show ?thesis
      by (simp add: at_n)
  qed
  have "promise (deliver (pre @ [n]) \<lparr>promise = Pending, trace = []\<rparr>) = Fulfilled True"
    by (simp add: deliver_append deliver_Cons deliver_Nil at_n)
  moreover have "callback_args (createRequest env inp) =
           Some (resp_status rsp,
                 success (jobRunID inp) (rsp\<lparr>resp_data := (resp_data rsp)\<lparr>result := Some (cid inp)\<rparr>\<rparr>))"
    using assms(1,2,3) sent by (rule callback_args_fulfilled)
  ultimately show ?thesis
    using sent by simp
qed

theorem sendTx_confirmed_in_block_witness:
  "promise (deliver ([bare Ready] @ [in_block [success_event]]) \<lparr>promise = Pending, trace = []\<rparr>)
     = Fulfilled True \<and>
   promise (sendTx (example_env (Subscribed [bare Ready, in_block [success_event], bare Finalized]))
     (placeStorageOrder (cid example_params) 1024 0) (crustOrderSeeds example_params) []) = Fulfilled True \<and>
   callback_args (createRequest
       (example_env (Subscribed [bare Ready, in_block [success_event], bare Finalized])) example_params)
     = Some (200, success ''1''
         \<lparr>resp_status = 200, resp_data = \<lparr>Pins = [''QmTest1''], result = Some ''QmTest1''\<rparr>\<rparr>)"
  using sendTx_confirmed_in_block [of
      "example_env (Subscribed [bare Ready, in_block [success_event], bare Finalized])"
      example_response example_params "\<lparr>cumulativeSize = 1024\<rparr>" "()" "KeyringPair ''//Alice''"
      "[bare Ready]" "in_block [success_event]" "[bare Finalized]" "[]" success_event "[]" "[]"]
  by (simp add: loadKeyringPair_def example_env_def example_params_def example_tx_def
      example_response_def bare_def in_block_def success_event_def
      isInBlock_def deliver_def callback_def isInvalid_def isDropped_def isUsurped_def isRetracted_def)

text \<open>
  Without the two conditions the claim fails: a failure event before the success event in
  the same list fulfils the promise with \<^verbatim>\<open>false\<close>, and an earlier \<^verbatim>\<open>Retracted\<close> notification
  has already rejected it.
\<close>

theorem sendTx_confirmed_in_block_counterexample:
  "promise (sendTx (example_env (Subscribed [in_block [failed_event, success_event]]))
      example_tx ''//Alice'' []) = Fulfilled False \<and>
   promise (sendTx (example_env (Subscribed [bare Retracted, in_block [success_event]]))
      example_tx ''//Alice'' []) = PRejected (Error ''Invalid transaction'')"
  by (simp add: sendTx_defs example_defs)

text \<open>
  C5 (amended). The promise of \<^verbatim>\<open>sendTx\<close> is settled at most once. It stays pending as long
  as no notification resolves, so a stream without a resolving notification never
  resolves. The first resolving notification fixes the outcome: rejected with
  \<^verbatim>\<open>Error('Invalid transaction')\<close> for the four invalidating statuses, fulfilled with the
  first-match decision of its events for \<^verbatim>\<open>InBlock\<close>. Every later notification leaves that
  outcome as it is (the outcome of the stream is that of the stream cut after the first
  resolving notification), though the callback still runs for it and writes its console
  lines. In particular an \<^verbatim>\<open>InBlock\<close> notification with a success event followed by an
  \<^verbatim>\<open>Invalid\<close> one still gives \<^verbatim>\<open>true\<close>.
\<close>

theorem sendTx_resolves_at_most_once:
  assumes "loadKeyringPair env seeds = Inr krp"
    and "signAndSend env t krp = Subscribed ns"
  shows "((\<forall>m \<in> set ns. \<not> resolving m) \<longrightarrow> promise (sendTx env t seeds c) = Pending) \<and>
         (ns = pre @ n # post \<and> (\<forall>m \<in> set pre. \<not> resolving m) \<and> resolving n \<longrightarrow>
            promise (sendTx env t seeds c) \<noteq> Pending \<and>
            promise (sendTx env t seeds c) =
              promise (deliver (pre @ [n]) \<lparr>promise = Pending, trace = []\<rparr>) \<and>
            (\<not> isInBlock (status n) \<longrightarrow>
               promise (sendTx env t seeds c) = PRejected (Error ''Invalid transaction'')) \<and>
            (isInBlock (status n) \<longrightarrow>
               Some (promise (sendTx env t seeds c)) =
                 map_option Fulfilled (first_match_scan (events n))))"
proof (intro conjI impI)
  assume none: "\<forall>m \<in> set ns. \<not> resolving m"
  have "promise (sendTx env t seeds c) =
        promise (deliver [] (deliver ns \<lparr>promise = Pending, trace = []\<rparr>))"
    using promise_sendTx_split [of env seeds krp t ns "[]" c] assms by simp
  also have "\<dots> = Pending"
    using none by (simp add: deliver_Nil promise_deliver_not_resolving)
  finally show "promise (sendTx env t seeds c) = Pending" .
next
  assume a: "ns = pre @ n # post \<and> (\<forall>m \<in> set pre. \<not> resolving m) \<and> resolving n"
  let ?s = "deliver pre \<lparr>promise = Pending, trace = []\<rparr>"
  from a have pending: "promise ?s = Pending"
    by (simp add: promise_deliver_not_resolving)
  from a have res: "resolving n" by simp
  note at_n = promise_callback_resolving [OF res pending]
  from assms(2) a have sub: "signAndSend env t krp = Subscribed (pre @ n # post)"
    by simp
  have "promise (sendTx env t seeds c) = promise (deliver (n # post) ?s)"
    using assms(1) sub by (rule promise_sendTx_split)
  also have "\<dots> = promise (deliver post (callback n ?s))"
    by (simp add: deliver_Cons)
  also have "\<dots> = promise (callback n ?s)"
    using at_n by (intro promise_deliver_settled) simp
  finally have eq: "promise (sendTx env t seeds c) = promise (callback n ?s)" .
  show "promise (sendTx env t seeds c) \<noteq> Pending"
    using eq at_n by simp
  show "promise (sendTx env t seeds c) =
      promise (deliver (pre @ [n]) \<lparr>promise = Pending, trace = []\<rparr>)"
    using eq by (simp add: deliver_append deliver_Cons deliver_Nil)
  show "promise (sendTx env t seeds c) = PRejected (Error ''Invalid transaction'')"
    if "\<not> isInBlock (status n)"
    using eq at_n that by simp
  show "Some (promise (sendTx env t seeds c)) = map_option Fulfilled (first_match_scan (events n))"
    if "isInBlock (status n)"
    using eq at_n that by simp
qed

theorem sendTx_resolves_at_most_once_witness:
  "promise (sendTx (example_env (Subscribed [bare Ready, bare Broadcast, bare Finalized]))
      example_tx ''//Alice'' []) = Pending \<and>
   promise (sendTx (example_env (Subscribed [bare Ready, in_block [success_event], bare Invalid]))
      example_tx ''//Alice'' []) = Fulfilled True \<and>
   promise (sendTx (example_env (Subscribed [bare Ready, bare Dropped, in_block [success_event]]))
      example_tx ''//Alice'' []) = PRejected (Error ''Invalid transaction'')"
proof -
  have never: "promise (sendTx (example_env (Subscribed [bare Ready, bare Broadcast, bare Finalized]))
      example_tx ''//Alice'' []) = Pending"
    using sendTx_resolves_at_most_once [of
      "example_env (Subscribed [bare Ready, bare Broadcast, bare Finalized])"
      "''//Alice''" "KeyringPair ''//Alice''" example_tx "[bare Ready, bare Broadcast, bare Finalized]"
      "[]" "[]" "bare Ready" "[]"]
    by (simp add: loadKeyringPair_def example_env_def resolving_def bare_def
      isInvalid_def isDropped_def isUsurped_def isRetracted_def isInBlock_def)
  have confirmed: "promise (sendTx (example_env (Subscribed [bare Ready, in_block [success_event], bare Invalid]))
      example_tx ''//Alice'' []) = Fulfilled True"
    using sendTx_resolves_at_most_once [of
      "example_env (Subscribed [bare Ready, in_block [success_event], bare Invalid])"
      "''//Alice''" "KeyringPair ''//Alice''" example_tx "[bare Ready, in_block [success_event], bare Invalid]"
      "[]" "[bare Ready]" "in_block [success_event]" "[bare Invalid]"]
    by (simp add: loadKeyringPair_def example_env_def resolving_def bare_def in_block_def
      deliver_def callback_def onEvent_def resolve_def reject_def Let_def
      success_event_def isInvalid_def isDropped_def isUsurped_def isRetracted_def isInBlock_def)
  have invalidated: "promise (sendTx (example_env (Subscribed [bare Ready, bare Dropped, in_block [success_event]]))
      example_tx ''//Alice'' []) = PRejected (Error ''Invalid transaction'')"
    using sendTx_resolves_at_most_once [of
      "example_env (Subscribed [bare Ready, bare Dropped, in_block [success_event]])"
      "''//Alice''" "KeyringPair ''//Alice''" example_tx "[bare Ready, bare Dropped, in_block [success_event]]"
      "[]" "[bare Ready]" "bare Dropped" "[in_block [success_event]]"]
    by (simp add: loadKeyringPair_def example_env_def resolving_def bare_def in_block_def
      deliver_def callback_def onEvent_def resolve_def reject_def Let_def
      isInvalid_def isDropped_def isUsurped_def isRetracted_def isInBlock_def)
  from never confirmed invalidated show ?thesis by simp
qed

text \<open>
  The claim as stated fails twice. The stream \<^verbatim>\<open>Ready\<close>, \<^verbatim>\<open>Broadcast\<close>, \<^verbatim>\<open>Finalized\<close> resolves to
  no outcome: the promise stays pending and \<^verbatim>\<open>createRequest\<close> never calls back. And a
  notification after the resolving one is not without effect: after an \<^verbatim>\<open>InBlock\<close>
  notification with a success event, an \<^verbatim>\<open>Invalid\<close> one still runs the callback, so the state
  of \<^verbatim>\<open>sendTx\<close> differs from the one without it.
\<close>

theorem sendTx_resolves_counterexample:
  "promise (sendTx (example_env (Subscribed [bare Ready, bare Broadcast, bare Finalized]))
      example_tx ''//Alice'' []) = Pending \<and>
   callback_args (createRequest
      (example_env (Subscribed [bare Ready, bare Broadcast, bare Finalized])) example_params) = None \<and>
   promise (sendTx (example_env (Subscribed [in_block [success_event]])) example_tx ''//Alice'' [])
     = Fulfilled True \<and>
   sendTx (example_env (Subscribed [in_block [success_event], bare Invalid])) example_tx ''//Alice'' []
     \<noteq> sendTx (example_env (Subscribed [in_block [success_event]])) example_tx ''//Alice'' []"
  by (simp add: createRequest_def sendTx_defs example_defs)

text \<open>
  C6 (amended). \<^verbatim>\<open>sendTx\<close> never ends the subscription: it attaches only \<^verbatim>\<open>.catch\<close> to the promise
  of \<^verbatim>\<open>signAndSend\<close> and never calls the unsubscribe function that promise resolves to. On every
  path, resolved or not, the callback runs once for each notification that the node
  emits, which the status lines show: one for every notification of the stream, in order.
\<close>

theorem sendTx_callback_runs_for_every_notification:
  assumes "loadKeyringPair env seeds = Inr krp"
    and "signAndSend env t krp = Subscribed ns"
  shows "status_lines (trace (sendTx env t seeds c)) =
         status_lines c @ map (\<lambda>n. status_type (status n)) ns"
  by (simp add: sendTx_subscribed [OF assms] status_lines_deliver status_lines_append)

theorem sendTx_callback_runs_for_every_notification_witness:
  "status_lines (trace (sendTx (example_env (Subscribed [in_block [success_event], bare Finalized]))
      example_tx ''//Alice'' [])) = [''InBlock'', ''Finalized'']"
  using sendTx_callback_runs_for_every_notification [of
      "example_env (Subscribed [in_block [success_event], bare Finalized])"
      "''//Alice''" "KeyringPair ''//Alice''" example_tx "[in_block [success_event], bare Finalized]" "[]"]
  by (simp add: loadKeyringPair_def example_env_def bare_def in_block_def)

text \<open>
  The claim as stated fails on the stream of an \<^verbatim>\<open>InBlock\<close> notification with a success event
  followed by \<^verbatim>\<open>Finalized\<close>: the first notification resolves the outcome, and the callback
  still runs for the second and writes its status line.
\<close>

theorem sendTx_unsubscribe_counterexample:
  "promise (sendTx (example_env (Subscribed [in_block [success_event]])) example_tx ''//Alice'' [])
     = Fulfilled True \<and>
   trace (sendTx (example_env (Subscribed [in_block [success_event], bare Finalized]))
      example_tx ''//Alice'' []) =
     trace (sendTx (example_env (Subscribed [in_block [success_event]])) example_tx ''//Alice'' [])
       @ [TransactionStatus ''Finalized'']"
  by (simp add: sendTx_defs example_defs)

text \<open>
  C7 (amended). When \<^verbatim>\<open>signAndSend\<close> fails for the transaction that \<^verbatim>\<open>createRequest\<close> built, the
  promise of \<^verbatim>\<open>sendTx\<close> is rejected with the cause itself, the callback never runs (the effects
  of \<^verbatim>\<open>sendTx\<close> are its first console line and the call of \<^verbatim>\<open>signAndSend\<close>, with no status line),
  and \<^verbatim>\<open>createRequest\<close> calls back with status 500 and \<^verbatim>\<open>Requester.errored\<close> of that cause. The
  rejection differs from the two fulfilled outcomes; it is the channel that an
  invalidating notification uses too, from which only the error carried tells it apart.
\<close>

theorem createRequest_submission_failure:
  assumes "request env = Inr rsp"
    and "files_stat env (''/ipfs/'' @ cid inp) = Inr st"
    and "isReadyOrError env = Inr u"
    and "loadKeyringPair env (crustOrderSeeds inp) = Inr krp"
    and "signAndSend env (placeStorageOrder (cid inp) (cumulativeSize st) 0) krp = SubmitFails e"
  shows "sendTx env (placeStorageOrder (cid inp) (cumulativeSize st) 0) (crustOrderSeeds inp) c =
           \<lparr>promise = PRejected e,
            trace = c @ [SendTxToChain,
                         SignAndSend (placeStorageOrder (cid inp) (cumulativeSize st) 0) krp]\<rparr> \<and>
         callback_args (createRequest env inp) = Some (500, errored (jobRunID inp) e)"
proof -
  have sent: "sendTx env (placeStorageOrder (cid inp) (cumulativeSize st) 0) (crustOrderSeeds inp) c' =
           \<lparr>promise = PRejected e,
            trace = c' @ [SendTxToChain,
                         SignAndSend (placeStorageOrder (cid inp) (cumulativeSize st) 0) krp]\<rparr>" for c'
    using assms(4,5) by (simp add: sendTx_def reject_def)
  have "callback_args (createRequest env inp) = Some (500, errored (jobRunID inp) e)"
    using assms(1,2,3) by (rule callback_args_rejected) (simp add: sent)
  with sent show ?thesis by simp
qed

theorem createRequest_submission_failure_witness:
  "sendTx (example_env (SubmitFails (Error ''connection refused'')))
      (placeStorageOrder (cid example_params) 1024 0) (crustOrderSeeds example_params) [] =
     \<lparr>promise = PRejected (Error ''connection refused''),
      trace = [SendTxToChain, SignAndSend (placeStorageOrder ''QmTest1'' 1024 0) (KeyringPair ''//Alice'')]\<rparr> \<and>
   callback_args (createRequest (example_env (SubmitFails (Error ''connection refused''))) example_params)
     = Some (500, errored ''1'' (Error ''connection refused''))"
  using createRequest_submission_failure [of
      "example_env (SubmitFails (Error ''connection refused''))"
      example_response example_params "\<lparr>cumulativeSize = 1024\<rparr>" "()" "KeyringPair ''//Alice''"
      "Error ''connection refused''" "[]"]
  by (simp add: loadKeyringPair_def example_env_def example_params_def example_tx_def)

text \<open>
  The channel is not distinct from every notification-driven outcome: a submission that
  fails with the cause \<^verbatim>\<open>Error('Invalid transaction')\<close> and a stream of the single notification
  \<^verbatim>\<open>Dropped\<close> give the same promise and the same call of the callback.
\<close>

theorem createRequest_submission_failure_counterexample:
  "promise (sendTx (example_env (SubmitFails (Error ''Invalid transaction''))) example_tx ''//Alice'' [])
     = promise (sendTx (example_env (Subscribed [bare Dropped])) example_tx ''//Alice'' []) \<and>
   callback_args (createRequest (example_env (SubmitFails (Error ''Invalid transaction''))) example_params)
     = callback_args (createRequest (example_env (Subscribed [bare Dropped])) example_params)"
  by (simp add: createRequest_def catch_error_def sendTx_defs example_defs)

text \<open>
  C8. In every run of \<^verbatim>\<open>createRequest\<close> that reaches the build of the transaction (the pin
  request, the size lookup for \<^verbatim>\<open>/ipfs/<cid>\<close> and the connection to the node succeeded), the
  transaction handed to \<^verbatim>\<open>signAndSend\<close> is \<^verbatim>\<open>placeStorageOrder(cid, cumulativeSize, 0)\<close> with the
  cumulative size that the lookup reported, and no other transaction is submitted (none
  at all when the key pair cannot be loaded from the seeds).
\<close>

theorem createRequest_builds_place_storage_order:
  assumes "request env = Inr rsp"
    and "files_stat env (''/ipfs/'' @ cid inp) = Inr st"
    and "isReadyOrError env = Inr u"
  shows "submitted (effects (createRequest env inp)) =
         (case loadKeyringPair env (crustOrderSeeds inp) of
            Inl e \<Rightarrow> []
          | Inr krp \<Rightarrow> [(placeStorageOrder (cid inp) (cumulativeSize st) 0, krp)])"
proof -
  let ?s = "sendTx env (placeStorageOrder (cid inp) (cumulativeSize st) 0)
              (crustOrderSeeds inp) [CumulativeSize (cumulativeSize st)]"
  have "submitted (effects (createRequest env inp)) = submitted (trace ?s)"
    using assms
    by (cases "promise ?s")
       (simp_all add: createRequest_def Let_def catch_error_def submitted_append)
  then show ?thesis
    by (simp add: submitted_sendTx)
qed

theorem createRequest_builds_place_storage_order_witness:
  "submitted (effects (createRequest (example_env (Subscribed [in_block [success_event]])) example_params))
     = [(placeStorageOrder ''QmTest1'' 1024 0, KeyringPair ''//Alice'')]"
  using createRequest_builds_place_storage_order [of
      "example_env (Subscribed [in_block [success_event]])"
      example_response example_params "\<lparr>cumulativeSize = 1024\<rparr>" "()"]
  by (simp add: loadKeyringPair_def example_env_def example_params_def)

text \<open>
  C9. For an \<^verbatim>\<open>InBlock\<close> notification, the promise after the \<^verbatim>\<open>forEach\<close> over all the events,
  where only the first call of \<^verbatim>\<open>resolve\<close> takes effect, is the promise that a first-match scan
  decides: unchanged when no event matches, and resolved with the decision of the first
  matching event otherwise. With a failure and a success event in one list, the earlier
  one decides.
\<close>

theorem scan_is_first_match:
  assumes "isInBlock (status n)"
  shows "promise (fold onEvent (events n) s) =
           (case first_match_scan (events n) of
              None \<Rightarrow> promise s | Some b \<Rightarrow> resolve b (promise s)) \<and>
         promise (callback n s) =
           (case first_match_scan (events n) of
              None \<Rightarrow> promise s | Some b \<Rightarrow> resolve b (promise s))"
  using assms by (simp add: promise_callback promise_fold_onEvent decide_def)

theorem scan_is_first_match_witness:
  "promise (callback (in_block [failed_event, success_event]) \<lparr>promise = Pending, trace = []\<rparr>)
     = Fulfilled False \<and>
   promise (callback (in_block [success_event, failed_event]) \<lparr>promise = Pending, trace = []\<rparr>)
     = Fulfilled True"
  using scan_is_first_match [of "in_block [failed_event, success_event]" "\<lparr>promise = Pending, trace = []\<rparr>"]
    scan_is_first_match [of "in_block [success_event, failed_event]" "\<lparr>promise = Pending, trace = []\<rparr>"]
  by (simp add: in_block_def isInBlock_def failed_event_def success_event_def resolve_def)

text \<open>
  C10 (amended). The matching is asymmetric in the section. In an \<^verbatim>\<open>InBlock\<close> notification an
  \<^verbatim>\<open>ExtrinsicFailed\<close> event whose section is not \<^verbatim>\<open>system\<close> is ignored: the handler leaves the state
  as it is, and the callback does what it does on the notification without that event. An
  \<^verbatim>\<open>ExtrinsicSuccess\<close> event of any section resolves the outcome as success when the promise is
  still pending as the notification arrives and no \<^verbatim>\<open>system\<close> \<^verbatim>\<open>ExtrinsicFailed\<close> event comes
  before it in the list.
\<close>

theorem callback_module_scoping:
  assumes "isInBlock (status n)" and "events n = evs1 @ ev # evs2"
  shows "(ev_method ev = ''ExtrinsicFailed'' \<and> ev_section ev \<noteq> ''system'' \<longrightarrow>
            onEvent ev s = s \<and> callback n s = callback (n\<lparr>events := evs1 @ evs2\<rparr>) s) \<and>
         (ev_method ev = ''ExtrinsicSuccess'' \<and> promise s = Pending \<and>
          (\<forall>e \<in> set evs1. \<not> (ev_section e = ''system'' \<and> ev_method e = ''ExtrinsicFailed'')) \<longrightarrow>
            promise (callback n s) = Fulfilled True)"
proof (intro conjI impI)
  assume a: "ev_method ev = ''ExtrinsicFailed'' \<and> ev_section ev \<noteq> ''system''"
  then show "onEvent ev s = s"
    by (simp add: onEvent_def)
  from a have "fold onEvent (evs1 @ ev # evs2) s' = fold onEvent (evs1 @ evs2) s'" for s'
    using fold_onEvent_ignored [of ev evs1 evs2 s'] by blast
  then show "callback n s = callback (n\<lparr>events := evs1 @ evs2\<rparr>) s"
    using assms by (simp add: callback_def Let_def)
next
  assume a: "ev_method ev = ''ExtrinsicSuccess'' \<and> promise s = Pending \<and>
          (\<forall>e \<in> set evs1. \<not> (ev_section e = ''system'' \<and> ev_method e = ''ExtrinsicFailed''))"
  then have "first_match_scan (evs1 @ ev # evs2) = Some True"
    by (intro first_match_scan_success) simp_all
  then have "first_match_scan (events n) = Some True"
    by (simp add: assms(2))
  with assms(1) a show "promise (callback n s) = Fulfilled True"
    by (simp add: promise_callback_InBlock)
qed

theorem callback_module_scoping_witness:
  "callback (in_block [\<lparr>ev_method = ''ExtrinsicFailed'', ev_section = ''market''\<rparr>])
      \<lparr>promise = Pending, trace = []\<rparr>
     = callback (in_block []) \<lparr>promise = Pending, trace = []\<rparr> \<and>
   promise (callback (in_block [\<lparr>ev_method = ''ExtrinsicFailed'', ev_section = ''market''\<rparr>,
                                \<lparr>ev_method = ''ExtrinsicSuccess'', ev_section = ''market''\<rparr>])
      \<lparr>promise = Pending, trace = []\<rparr>) = Fulfilled True"
  using callback_module_scoping [of "in_block [\<lparr>ev_method = ''ExtrinsicFailed'', ev_section = ''market''\<rparr>]"
      "[]" "\<lparr>ev_method = ''ExtrinsicFailed'', ev_section = ''market''\<rparr>" "[]" "\<lparr>promise = Pending, trace = []\<rparr>"]
    callback_module_scoping [of "in_block [\<lparr>ev_method = ''ExtrinsicFailed'', ev_section = ''market''\<rparr>,
                                \<lparr>ev_method = ''ExtrinsicSuccess'', ev_section = ''market''\<rparr>]"
      "[\<lparr>ev_method = ''ExtrinsicFailed'', ev_section = ''market''\<rparr>]"
      "\<lparr>ev_method = ''ExtrinsicSuccess'', ev_section = ''market''\<rparr>" "[]" "\<lparr>promise = Pending, trace = []\<rparr>"]
  by (simp add: in_block_def isInBlock_def)

text \<open>
  Without the two conditions the second half fails: a \<^verbatim>\<open>system\<close> failure event before a
  success event of the section \<^verbatim>\<open>market\<close> fulfils the promise with \<^verbatim>\<open>false\<close>, and after a
  \<^verbatim>\<open>Retracted\<close> notification the promise stays rejected.
\<close>

theorem callback_module_scoping_counterexample:
  "promise (callback (in_block [failed_event, \<lparr>ev_method = ''ExtrinsicSuccess'', ev_section = ''market''\<rparr>])
      \<lparr>promise = Pending, trace = []\<rparr>) = Fulfilled False \<and>
   promise (sendTx (example_env (Subscribed
       [bare Retracted, in_block [\<lparr>ev_method = ''ExtrinsicSuccess'', ev_section = ''market''\<rparr>]]))
      example_tx ''//Alice'' []) = PRejected (Error ''Invalid transaction'')"
  by (simp add: sendTx_defs example_defs)

end
